theory Spec2Isabelle
  imports Main
begin

section \<open>JavaScript built-ins used by the source\<close>

text \<open>
  Strings are \<^typ>\<open>string\<close>. \<open>String.prototype.toLowerCase\<close> is modelled on the
  ASCII letters (entity type names are identifiers); every other character is kept.
\<close>

definition toLowerCase_char :: "char \<Rightarrow> char" where
  "toLowerCase_char c =
     (case map_of (zip ''ABCDEFGHIJKLMNOPQRSTUVWXYZ'' ''abcdefghijklmnopqrstuvwxyz'') c of
        Some l \<Rightarrow> l
      | None \<Rightarrow> c)"

definition toLowerCase :: "string \<Rightarrow> string" where
  "toLowerCase s = map toLowerCase_char s"

text \<open>
  \<open>String.prototype.indexOf(pattern)\<close>: the index of the first occurrence of the
  pattern, searching from position 0, and \<open>-1\<close> when there is none.
\<close>

fun indexOf_from :: "nat \<Rightarrow> string \<Rightarrow> string \<Rightarrow> int" where
  "indexOf_from i [] pat = (if pat = [] then int i else - 1)"
| "indexOf_from i (c # s) pat =
     (if take (length pat) (c # s) = pat then int i else indexOf_from (Suc i) s pat)"

definition indexOf :: "string \<Rightarrow> string \<Rightarrow> int" where
  "indexOf s pat = indexOf_from 0 s pat"

text \<open>
  The \<open>classnames\<close> package: the truthy arguments joined by single spaces. An
  argument is \<open>None\<close> when it is \<open>undefined\<close>; the empty string is falsy as well.
\<close>

fun join_space :: "string list \<Rightarrow> string" where
  "join_space [] = []"
| "join_space [x] = x"
| "join_space (x # y # ys) = x @ '' '' @ join_space (y # ys)"

definition classNames :: "string option list \<Rightarrow> string" where
  "classNames args =
     join_space (filter (\<lambda>s. s \<noteq> []) (concat (map (\<lambda>a. case a of None \<Rightarrow> [] | Some s \<Rightarrow> [s]) args)))"

section \<open>MuiCheckboxGroup\<close>

text \<open>One entry of \<open>inputProperties.options\<close>: \<open>{ value, label, disabled }\<close>.\<close>

record checkbox_option =
  opt_value :: string
  label :: string
  opt_disabled :: bool

text \<open>
  \<open>this.props.inputProperties\<close>; \<open>form_value\<close> is its \<open>value\<close> field, the current
  value of the form field (the list of selected option values).
\<close>

record input_properties =
  name :: string
  options :: "checkbox_option list"
  disabled :: bool
  form_value :: "string list"

record props =
  inputProperties :: input_properties
  variant :: string
  classes :: "string \<Rightarrow> string option"

datatype component = Checkbox | Switch

text \<open>A rendered \<open>FormControlLabel\<close> with the properties of the control inside it.\<close>

record control =
  key :: nat
  control_component :: component
  checked :: bool
  control_value :: string
  control_disabled :: bool
  control_label :: string

record form_group =
  className :: string
  children :: "control list"

text \<open>
  The callback of \<open>options.map\<close> in \<open>renderElement\<close>. The local \<open>value\<close> is the
  option's own value and shadows nothing else: \<open>checked\<close> is
  \<open>value.indexOf(value) !== -1\<close>.
\<close>

definition render_control :: "props \<Rightarrow> nat \<Rightarrow> checkbox_option \<Rightarrow> control" where
  "render_control p k checkbox =
     (let v = opt_value checkbox;
          chk = (indexOf v v \<noteq> - 1);
          dis = (opt_disabled checkbox \<or> disabled (inputProperties p));
          comp = (if variant p = ''switch'' then Switch else Checkbox)
      in \<lparr> key = k, control_component = comp, checked = chk, control_value = v,
           control_disabled = dis, control_label = label checkbox \<rparr>)"

text \<open>The \<open>options.reduce\<close> of \<open>renderElement\<close>, starting from 0.\<close>

definition maxLength :: "checkbox_option list \<Rightarrow> nat" where
  "maxLength opts =
     foldl (\<lambda>mx option. if length (label option) > mx then length (label option) else mx) 0 opts"

definition columnClass :: "checkbox_option list \<Rightarrow> string" where
  "columnClass opts =
     (if maxLength opts < 20 then ''threeColumn''
      else if maxLength opts < 30 then ''twoColumn'' else '''')"

definition renderElement :: "props \<Rightarrow> form_group" where
  "renderElement p =
     (let opts = options (inputProperties p);
          controls = map (\<lambda>(k, checkbox). render_control p k checkbox) (zip [0 ..< length opts] opts)
      in \<lparr> className = classNames [classes p ''group'', classes p (columnClass opts)],
           children = controls \<rparr>)"

section \<open>Default mutations: callback registration\<close>

text \<open>
  The object passed to \<open>registerCallback\<close>. Each entry of \<open>arguments\<close> is a
  one-property object \<open>{ argumentName: 'description' }\<close>, here a pair; \<open>returns\<close> is
  \<open>None\<close> for \<open>null\<close>.
\<close>

record callback_def =
  cb_name :: string
  arguments :: "(string \<times> string) list"
  runs :: string
  returns :: "string option"
  cb_description :: string

text \<open>
  \<open>registerCollectionCallbacks\<close>. \<open>registerCallback\<close> is imported from
  \<open>meteor/vulcan:lib\<close>; it is the parameter \<open>reg\<close>, acting on a registry \<open>r\<close>.
\<close>

definition registerCollectionCallbacks ::
  "(callback_def \<Rightarrow> 'r \<Rightarrow> 'r) \<Rightarrow> string \<Rightarrow> 'r \<Rightarrow> 'r" where
  "registerCollectionCallbacks reg collectionName0 r0 =
     (let collectionName = toLowerCase collectionName0;
          r = reg \<lparr> cb_name = collectionName @ ''.create.validate'',
                     arguments = [(''document'', ''The document being inserted''),
                                  (''currentUser'', ''The current user''),
                                  (''validationErrors'', ''An object that can be used to accumulate validation errors'')],
                     runs = ''sync'',
                     returns = Some ''document'',
                     cb_description = ''Validate a document before insertion (can be skipped when inserting directly on server).'' \<rparr> r0;
          r = reg \<lparr> cb_name = collectionName @ ''.create.before'',
                     arguments = [(''document'', ''The document being inserted''),
                                  (''currentUser'', ''The current user'')],
                     runs = ''sync'',
                     returns = Some ''document'',
                     cb_description = ''Perform operations on a new document before it's inserted in the database.'' \<rparr> r;
          r = reg \<lparr> cb_name = collectionName @ ''.create.after'',
                     arguments = [(''document'', ''The document being inserted''),
                                  (''currentUser'', ''The current user'')],
                     runs = ''sync'',
                     returns = Some ''document'',
                     cb_description = ''Perform operations on a new document after it's inserted in the database but *before* the mutation returns it.'' \<rparr> r;
          r = reg \<lparr> cb_name = collectionName @ ''.create.async'',
                     arguments = [(''document'', ''The document being inserted''),
                                  (''currentUser'', ''The current user''),
                                  (''collection'', ''The collection the document belongs to'')],
                     runs = ''async'',
                     returns = None,
                     cb_description = ''Perform operations on a new document after it's inserted in the database asynchronously.'' \<rparr> r;
          r = reg \<lparr> cb_name = collectionName @ ''.update.validate'',
                     arguments = [(''modifier'', ''The MongoDB modifier''),
                                  (''document'', ''The document being edited''),
                                  (''currentUser'', ''The current user''),
                                  (''validationErrors'', ''An object that can be used to accumulate validation errors'')],
                     runs = ''sync'',
                     returns = Some ''modifier'',
                     cb_description = ''Validate a document before update (can be skipped when updating directly on server).'' \<rparr> r;
          r = reg \<lparr> cb_name = collectionName @ ''.update.before'',
                     arguments = [(''modifier'', ''The MongoDB modifier''),
                                  (''document'', ''The document being edited''),
                                  (''currentUser'', ''The current user'')],
                     runs = ''sync'',
                     returns = Some ''modifier'',
                     cb_description = ''Perform operations on a document before it's updated in the database.'' \<rparr> r;
          r = reg \<lparr> cb_name = collectionName @ ''.update.after'',
                     arguments = [(''modifier'', ''The MongoDB modifier''),
                                  (''document'', ''The document being edited''),
                                  (''currentUser'', ''The current user'')],
                     runs = ''sync'',
                     returns = Some ''document'',
                     cb_description = ''Perform operations on a document after it's updated in the database but *before* the mutation returns it.'' \<rparr> r;
          r = reg \<lparr> cb_name = collectionName @ ''.update.async'',
                     arguments = [(''newDocument'', ''The document after the edit''),
                                  (''document'', ''The document before the edit''),
                                  (''currentUser'', ''The current user''),
                                  (''collection'', ''The collection the document belongs to'')],
                     runs = ''async'',
                     returns = None,
                     cb_description = ''Perform operations on a document after it's updated in the database asynchronously.'' \<rparr> r;
          r = reg \<lparr> cb_name = collectionName @ ''.delete.validate'',
                     arguments = [(''document'', ''The document being removed''),
                                  (''currentUser'', ''The current user''),
                                  (''validationErrors'', ''An object that can be used to accumulate validation errors'')],
                     runs = ''sync'',
                     returns = Some ''document'',
                     cb_description = ''Validate a document before removal (can be skipped when removing directly on server).'' \<rparr> r;
          r = reg \<lparr> cb_name = collectionName @ ''.delete.before'',
                     arguments = [(''document'', ''The document being removed''),
                                  (''currentUser'', ''The current user'')],
                     runs = ''sync'',
                     returns = None,
                     cb_description = ''Perform operations on a document before it's removed from the database.'' \<rparr> r;
          r = reg \<lparr> cb_name = collectionName @ ''.delete.async'',
                     arguments = [(''document'', ''The document being removed''),
                                  (''currentUser'', ''The current user''),
                                  (''collection'', ''The collection the document belongs to'')],
                     runs = ''async'',
                     returns = None,
                     cb_description = ''Perform operations on a document after it's removed from the database asynchronously.'' \<rparr> r
      in r)"

text \<open>
  The definitions that one call of \<open>registerCollectionCallbacks\<close> passes to
  \<open>registerCallback\<close>, in the order of the calls: the function run on a registry
  that records its calls.
\<close>

definition registered :: "string \<Rightarrow> callback_def list" where
  "registered typeName = registerCollectionCallbacks (\<lambda>d calls. calls @ [d]) typeName []"

section \<open>Default mutations: data model\<close>

text \<open>
  A value that JavaScript may leave \<open>undefined\<close> or \<open>null\<close> is an \<open>option\<close>
  (\<open>None\<close> when it is absent). Users (\<open>'u\<close>), documents (\<open>'d\<close>), collection
  handles (\<open>'c\<close>) and the state of the storage behind the connector (\<open>'s\<close>) are
  opaque to this module.
\<close>

type_synonym doc_id = string

record selector =
  documentId :: "doc_id option"

text \<open>
  The second argument of \<open>Connectors.get\<close>: a document identifier (update, delete) or a
  selector object (upsert).
\<close>

datatype get_key = ById "doc_id option" | BySelector "selector option"

datatype error = TypeError | AuthorizationDenied | ExternalFailure string

text \<open>\<open>input\<close>: \<open>{ selector, data }\<close>.\<close>

record 'd mutation_input =
  selector :: "selector option"
  data :: "'d option"

text \<open>
  The second argument of a handler. The execution layer passes \<open>{ input }\<close>; the
  upsert handler passes \<open>{ selector, data }\<close> and \<open>{ data }\<close>, objects with no
  \<open>input\<close> property.
\<close>

record 'd mutation_args =
  input :: "'d mutation_input option"
  arg_selector :: "selector option"
  arg_data :: "'d option"

text \<open>\<open>context\<close>: \<open>context.currentUser\<close> and \<open>context[typeName]\<close>.\<close>

record ('u, 'c) request_context =
  currentUser :: "'u option"
  collections :: "string \<Rightarrow> 'c option"

type_synonym ('u, 'd) check_fn = "'u option \<Rightarrow> 'd option \<Rightarrow> bool"

text \<open>
  The calls that leave the module, in the order they are made: \<open>Connectors.get\<close>
  (collection, key, options: \<open>Some [''_id'']\<close> is \<open>{ fields: { _id: 1 } }\<close>),
  \<open>Utils.performCheck\<close> (user, checked object, the optional fourth argument), and
  the three mutators with the properties of their argument object.
\<close>

datatype ('u, 'd, 'c) event =
    ConnectorsGet "'c option" get_key "string list option"
  | PerformCheck "'u option" "'d option" "('u, 'c) request_context option"
  | CreateMutator "'c option" "'d option" "'u option" bool "('u, 'c) request_context"
  | UpdateMutator "'c option" "doc_id option" "'d option" "'u option" bool "('u, 'c) request_context"
  | DeleteMutator "'c option" "doc_id option" "'u option" bool "('u, 'c) request_context"

record ('u, 'd, 'c, 's) world =
  store :: 's
  trace :: "('u, 'd, 'c) event list"

type_synonym ('u, 'd, 'c, 's) outcome = "('u, 'd, 'c, 's) world \<times> (error + 'd)"

text \<open>
  A \<open>mutation\<close> method. Its first parameter is \<open>this.check\<close>, the \<open>check\<close> property
  of the object the method is called on; \<open>root\<close> is never inspected.
\<close>

type_synonym ('u, 'd, 'c, 's) handler =
  "('u, 'd) check_fn option \<Rightarrow> unit \<Rightarrow> 'd mutation_args \<Rightarrow> ('u, 'c) request_context
     \<Rightarrow> ('u, 'd, 'c, 's) world \<Rightarrow> ('u, 'd, 'c, 's) outcome"

record ('u, 'd, 'c, 's) descriptor =
  description :: string
  check :: "('u, 'd) check_fn option"
  mutation :: "('u, 'd, 'c, 's) handler"

text \<open>The method call \<open>d.mutation(root, args, context)\<close>: \<open>this\<close> is \<open>d\<close>.\<close>

definition invoke ::
  "('u, 'd, 'c, 's) descriptor \<Rightarrow> unit \<Rightarrow> 'd mutation_args \<Rightarrow> ('u, 'c) request_context
     \<Rightarrow> ('u, 'd, 'c, 's) world \<Rightarrow> ('u, 'd, 'c, 's) outcome" where
  "invoke d root args ctx w = mutation d (check d) root args ctx w"

text \<open>
  The call \<open>d.check(user, document)\<close>; calling a property that is \<open>undefined\<close>
  throws a \<open>TypeError\<close>.
\<close>

definition call_check ::
  "('u, 'd, 'c, 's) descriptor \<Rightarrow> 'u option \<Rightarrow> 'd option \<Rightarrow> error + bool" where
  "call_check d user document =
     (case check d of None \<Rightarrow> Inl TypeError | Some chk \<Rightarrow> Inr (chk user document))"

text \<open>The object returned by \<open>getDefaultMutations\<close>; an absent property is \<open>None\<close>.\<close>

record ('u, 'd, 'c, 's) mutations =
  mutations_create :: "('u, 'd, 'c, 's) descriptor option"
  mutations_update :: "('u, 'd, 'c, 's) descriptor option"
  mutations_upsert :: "('u, 'd, 'c, 's) descriptor option"
  mutations_delete :: "('u, 'd, 'c, 's) descriptor option"

text \<open>
  The \<open>options\<close> object. A flag is \<open>None\<close> when the property is absent, and a
  \<open>check\<close> override is \<open>None\<close> when none is configured.
\<close>

record ('u, 'd) options =
  create :: "bool option"
  update :: "bool option"
  upsert :: "bool option"
  delete :: "bool option"
  newCheck :: "('u, 'd) check_fn option"
  editCheck :: "('u, 'd) check_fn option"
  removeCheck :: "('u, 'd) check_fn option"

text \<open>Truthiness of a flag: \<open>undefined\<close> and \<open>false\<close> are falsy.\<close>

definition truthy :: "bool option \<Rightarrow> bool" where
  "truthy b = (b = Some True)"

text \<open>The default value of the \<open>options\<close> parameter.\<close>

definition default_options :: "('u, 'd) options" where
  "default_options =
     \<lparr> create = Some True, update = Some True, upsert = Some True, delete = Some True,
       newCheck = None, editCheck = None, removeCheck = None \<rparr>"

text \<open>
  The binding of the parameter \<open>options = { ... }\<close>: the argument is \<open>None\<close> when the
  caller passes none (or \<open>undefined\<close>); then, and only then, the default applies.
\<close>

definition options_or_default :: "('u, 'd) options option \<Rightarrow> ('u, 'd) options" where
  "options_or_default options_arg =
     (case options_arg of None \<Rightarrow> default_options | Some given \<Rightarrow> given)"

text \<open>
  What the module imports: \<open>Users.owns\<close>, \<open>Users.canDo\<close>, \<open>Connectors.get\<close> (it reads
  the storage and may fail), the three mutators (they change the storage and return the
  document, or fail), and \<open>collection.options.mutations\<close> of a collection handle.
\<close>

record ('u, 'd, 'c, 's) env =
  owns :: "'u \<Rightarrow> 'd \<Rightarrow> bool"
  canDo :: "'u option \<Rightarrow> string \<Rightarrow> bool"
  connectors_get :: "'s \<Rightarrow> 'c option \<Rightarrow> get_key \<Rightarrow> string list option \<Rightarrow> error + 'd option"
  createMutator ::
    "'s \<Rightarrow> 'c option \<Rightarrow> 'd option \<Rightarrow> 'u option \<Rightarrow> bool \<Rightarrow> ('u, 'c) request_context \<Rightarrow> 's \<times> (error + 'd)"
  updateMutator ::
    "'s \<Rightarrow> 'c option \<Rightarrow> doc_id option \<Rightarrow> 'd option \<Rightarrow> 'u option \<Rightarrow> bool \<Rightarrow> ('u, 'c) request_context
       \<Rightarrow> 's \<times> (error + 'd)"
  deleteMutator ::
    "'s \<Rightarrow> 'c option \<Rightarrow> doc_id option \<Rightarrow> 'u option \<Rightarrow> bool \<Rightarrow> ('u, 'c) request_context \<Rightarrow> 's \<times> (error + 'd)"
  coll_mutations :: "'c \<Rightarrow> ('u, 'd, 'c, 's) mutations"

section \<open>Default mutations: calls that leave the module\<close>

definition log ::
  "('u, 'd, 'c) event \<Rightarrow> ('u, 'd, 'c, 's) world \<Rightarrow> ('u, 'd, 'c, 's) world" where
  "log e w = w\<lparr>trace := trace w @ [e]\<rparr>"

text \<open>\<open>await Connectors.get(collection, key, options)\<close>: recorded, then answered from the storage.\<close>

definition call_get ::
  "('u, 'd, 'c, 's) env \<Rightarrow> 'c option \<Rightarrow> get_key \<Rightarrow> string list option \<Rightarrow> ('u, 'd, 'c, 's) world
     \<Rightarrow> ('u, 'd, 'c, 's) world \<times> (error + 'd option)" where
  "call_get E collection k projection w =
     (log (ConnectorsGet collection k projection) w,
      connectors_get E (store w) collection k projection)"

definition call_createMutator ::
  "('u, 'd, 'c, 's) env \<Rightarrow> 'c option \<Rightarrow> 'd option \<Rightarrow> 'u option \<Rightarrow> bool \<Rightarrow> ('u, 'c) request_context
     \<Rightarrow> ('u, 'd, 'c, 's) world \<Rightarrow> ('u, 'd, 'c, 's) outcome" where
  "call_createMutator E collection dat user validate ctx w =
     (case createMutator E (store w) collection dat user validate ctx of
        (s', res) \<Rightarrow> (log (CreateMutator collection dat user validate ctx) (w\<lparr>store := s'\<rparr>), res))"

definition call_updateMutator ::
  "('u, 'd, 'c, 's) env \<Rightarrow> 'c option \<Rightarrow> doc_id option \<Rightarrow> 'd option \<Rightarrow> 'u option \<Rightarrow> bool
     \<Rightarrow> ('u, 'c) request_context \<Rightarrow> ('u, 'd, 'c, 's) world \<Rightarrow> ('u, 'd, 'c, 's) outcome" where
  "call_updateMutator E collection docId dat user validate ctx w =
     (case updateMutator E (store w) collection docId dat user validate ctx of
        (s', res) \<Rightarrow> (log (UpdateMutator collection docId dat user validate ctx) (w\<lparr>store := s'\<rparr>), res))"

definition call_deleteMutator ::
  "('u, 'd, 'c, 's) env \<Rightarrow> 'c option \<Rightarrow> doc_id option \<Rightarrow> 'u option \<Rightarrow> bool
     \<Rightarrow> ('u, 'c) request_context \<Rightarrow> ('u, 'd, 'c, 's) world \<Rightarrow> ('u, 'd, 'c, 's) outcome" where
  "call_deleteMutator E collection docId user validate ctx w =
     (case deleteMutator E (store w) collection docId user validate ctx of
        (s', res) \<Rightarrow> (log (DeleteMutator collection docId user validate ctx) (w\<lparr>store := s'\<rparr>), res))"

text \<open>
  Modelled from the spec: \<open>Utils.performCheck\<close> of \<open>meteor/vulcan:lib\<close> is not part of
  the source at hand. By sections 4.1, 4.3 and 7 of the specification the check is
  called on the user and the checked object, and the request is rejected with an
  authorization error when it returns false; a missing document is denied by the check
  itself. Calling an operation that is \<open>undefined\<close> is a \<open>TypeError\<close>.
\<close>

definition performCheck ::
  "('u, 'd) check_fn option \<Rightarrow> 'u option \<Rightarrow> 'd option \<Rightarrow> ('u, 'c) request_context option
     \<Rightarrow> ('u, 'd, 'c, 's) world \<Rightarrow> ('u, 'd, 'c, 's) world \<times> (error + unit)" where
  "performCheck operation user checkedObject ctx w =
     (let w' = log (PerformCheck user checkedObject ctx) w
      in case operation of
           None \<Rightarrow> (w', Inl TypeError)
         | Some chk \<Rightarrow> if chk user checkedObject then (w', Inr ()) else (w', Inl AuthorizationDenied))"

section \<open>Default mutations: the descriptors\<close>

text \<open>\<open>mutations.create.check\<close>\<close>

definition create_check ::
  "('u, 'd, 'c, 's) env \<Rightarrow> string \<Rightarrow> ('u, 'd) options \<Rightarrow> ('u, 'd) check_fn" where
  "create_check E typeName opts user document =
     (case newCheck opts of
        Some f \<Rightarrow> f user document
      | None \<Rightarrow> canDo E user (toLowerCase typeName @ ''.new''))"

text \<open>\<open>mutations.update.check\<close>\<close>

definition update_check ::
  "('u, 'd, 'c, 's) env \<Rightarrow> string \<Rightarrow> ('u, 'd) options \<Rightarrow> ('u, 'd) check_fn" where
  "update_check E typeName opts user document =
     (case editCheck opts of
        Some f \<Rightarrow> f user document
      | None \<Rightarrow>
          (case (user, document) of
             (Some u, Some d) \<Rightarrow>
               if owns E u d then canDo E user (toLowerCase typeName @ ''.edit.own'')
               else canDo E user (toLowerCase typeName @ ''.edit.all'')
           | _ \<Rightarrow> False))"

text \<open>\<open>mutations.delete.check\<close>\<close>

definition delete_check ::
  "('u, 'd, 'c, 's) env \<Rightarrow> string \<Rightarrow> ('u, 'd) options \<Rightarrow> ('u, 'd) check_fn" where
  "delete_check E typeName opts user document =
     (case removeCheck opts of
        Some f \<Rightarrow> f user document
      | None \<Rightarrow>
          (case (user, document) of
             (Some u, Some d) \<Rightarrow>
               if owns E u d then canDo E user (toLowerCase typeName @ ''.remove.own'')
               else canDo E user (toLowerCase typeName @ ''.remove.all'')
           | _ \<Rightarrow> False))"

text \<open>
  \<open>mutations.create.mutation\<close>. Destructuring \<open>input\<close> when the argument object has no
  \<open>input\<close> property throws a \<open>TypeError\<close>.
\<close>

definition create_mutation ::
  "('u, 'd, 'c, 's) env \<Rightarrow> string \<Rightarrow> ('u, 'd, 'c, 's) handler" where
  "create_mutation E typeName this_check root args ctx w =
     (case input args of
        None \<Rightarrow> (w, Inl TypeError)
      | Some inp \<Rightarrow>
          (let dat = data inp;
               collection = collections ctx typeName
           in case performCheck this_check (currentUser ctx) dat None w of
                (w1, Inl e) \<Rightarrow> (w1, Inl e)
              | (w1, Inr _) \<Rightarrow>
                  call_createMutator E collection dat (currentUser ctx) True ctx w1))"

text \<open>
  \<open>mutations.update.mutation\<close>. \<open>const { documentId } = selector\<close> throws a
  \<open>TypeError\<close> when \<open>input\<close> has no selector.
\<close>

definition update_mutation ::
  "('u, 'd, 'c, 's) env \<Rightarrow> string \<Rightarrow> ('u, 'd, 'c, 's) handler" where
  "update_mutation E typeName this_check root args ctx w =
     (case input args of
        None \<Rightarrow> (w, Inl TypeError)
      | Some inp \<Rightarrow>
          (case selector inp of
             None \<Rightarrow> (w, Inl TypeError)
           | Some sel \<Rightarrow>
               (let dat = data inp;
                    docId = documentId sel;
                    collection = collections ctx typeName
                in case call_get E collection (ById docId) None w of
                     (w1, Inl e) \<Rightarrow> (w1, Inl e)
                   | (w1, Inr document) \<Rightarrow>
                       (case performCheck this_check (currentUser ctx) document None w1 of
                          (w2, Inl e) \<Rightarrow> (w2, Inl e)
                        | (w2, Inr _) \<Rightarrow>
                            call_updateMutator E collection docId dat (currentUser ctx) True ctx w2))))"

text \<open>
  \<open>mutations.upsert.mutation\<close>. The handlers it calls are those of
  \<open>collection.options.mutations\<close>; reading a property of \<open>undefined\<close> (no collection
  under \<open>context[typeName]\<close>, no \<open>update\<close> or \<open>create\<close> descriptor) throws a
  \<open>TypeError\<close>.
\<close>

definition upsert_mutation ::
  "('u, 'd, 'c, 's) env \<Rightarrow> string \<Rightarrow> ('u, 'd, 'c, 's) handler" where
  "upsert_mutation E typeName this_check root args ctx w =
     (case input args of
        None \<Rightarrow> (w, Inl TypeError)
      | Some inp \<Rightarrow>
          (let sel = selector inp;
               dat = data inp;
               collection = collections ctx typeName
           in case call_get E collection (BySelector sel) (Some [''_id'']) w of
                (w1, Inl e) \<Rightarrow> (w1, Inl e)
              | (w1, Inr existingDocument) \<Rightarrow>
                  (case collection of
                     None \<Rightarrow> (w1, Inl TypeError)
                   | Some c \<Rightarrow>
                       if existingDocument \<noteq> None then
                         (case mutations_update (coll_mutations E c) of
                            None \<Rightarrow> (w1, Inl TypeError)
                          | Some d \<Rightarrow>
                              invoke d root \<lparr> input = None, arg_selector = sel, arg_data = dat \<rparr> ctx w1)
                       else
                         (case mutations_create (coll_mutations E c) of
                            None \<Rightarrow> (w1, Inl TypeError)
                          | Some d \<Rightarrow>
                              invoke d root \<lparr> input = None, arg_selector = None, arg_data = dat \<rparr> ctx w1))))"

text \<open>\<open>mutations.delete.mutation\<close>\<close>

definition delete_mutation ::
  "('u, 'd, 'c, 's) env \<Rightarrow> string \<Rightarrow> ('u, 'd, 'c, 's) handler" where
  "delete_mutation E typeName this_check root args ctx w =
     (case input args of
        None \<Rightarrow> (w, Inl TypeError)
      | Some inp \<Rightarrow>
          (case selector inp of
             None \<Rightarrow> (w, Inl TypeError)
           | Some sel \<Rightarrow>
               (let docId = documentId sel;
                    collection = collections ctx typeName
                in case call_get E collection (ById docId) None w of
                     (w1, Inl e) \<Rightarrow> (w1, Inl e)
                   | (w1, Inr document) \<Rightarrow>
                       (case performCheck this_check (currentUser ctx) document (Some ctx) w1 of
                          (w2, Inl e) \<Rightarrow> (w2, Inl e)
                        | (w2, Inr _) \<Rightarrow>
                            call_deleteMutator E collection docId (currentUser ctx) True ctx w2))))"

text \<open>
  \<open>getDefaultMutations(typeName, options)\<close>. The result is the registry after
  \<open>registerCollectionCallbacks\<close> and the object \<open>mutations\<close>.
\<close>

definition getDefaultMutations ::
  "(callback_def \<Rightarrow> 'r \<Rightarrow> 'r) \<Rightarrow> ('u, 'd, 'c, 's) env \<Rightarrow> string \<Rightarrow> ('u, 'd) options option \<Rightarrow> 'r
     \<Rightarrow> 'r \<times> ('u, 'd, 'c, 's) mutations" where
  "getDefaultMutations reg E typeName options_arg r =
     (let opts = options_or_default options_arg;
          r' = registerCollectionCallbacks reg typeName r;
          mutations = \<lparr> mutations_create = None, mutations_update = None,
                        mutations_upsert = None, mutations_delete = None \<rparr>;
          mutations =
            (if truthy (create opts) then
               mutations\<lparr> mutations_create := Some
                 \<lparr> description = ''Mutation for creating new '' @ typeName @ '' documents'',
                   check = Some (create_check E typeName opts),
                   mutation = create_mutation E typeName \<rparr> \<rparr>
             else mutations);
          mutations =
            (if truthy (update opts) then
               mutations\<lparr> mutations_update := Some
                 \<lparr> description = ''Mutation for updating a '' @ typeName @ '' document'',
                   check = Some (update_check E typeName opts),
                   mutation = update_mutation E typeName \<rparr> \<rparr>
             else mutations);
          mutations =
            (if truthy (upsert opts) then
               mutations\<lparr> mutations_upsert := Some
                 \<lparr> description = ''Mutation for upserting a '' @ typeName @ '' document'',
                   check = None,
                   mutation = upsert_mutation E typeName \<rparr> \<rparr>
             else mutations);
          mutations =
            (if truthy (delete opts) then
               mutations\<lparr> mutations_delete := Some
                 \<lparr> description = ''Mutation for deleting a '' @ typeName @ '' document'',
                   check = Some (delete_check E typeName opts),
                   mutation = delete_mutation E typeName \<rparr> \<rparr>
             else mutations)
      in (r', mutations))"

section \<open>An example installation\<close>

text \<open>
  A small concrete environment on which the results below are evaluated: users are
  names, a document is the pair of its identifier and its owner, the storage is an
  association list from identifiers to documents. The user \<open>admin\<close> may do everything;
  every other signed-in user may create documents and edit or remove their own.
\<close>

type_synonym demo_doc = "string \<times> string"

type_synonym demo_store = "(string \<times> demo_doc) list"

definition demo_key_id :: "get_key \<Rightarrow> doc_id option" where
  "demo_key_id k =
     (case k of
        ById i \<Rightarrow> i
      | BySelector sel \<Rightarrow> (case sel of None \<Rightarrow> None | Some sl \<Rightarrow> documentId sl))"

definition demo_env0 :: "(string, demo_doc, string, demo_store) env" where
  "demo_env0 =
     \<lparr> owns = (\<lambda>u d. snd d = u),
       canDo = (\<lambda>user action.
          case user of
            None \<Rightarrow> False
          | Some n \<Rightarrow> n = ''admin'' \<or> action \<in> set [''posts.new'', ''posts.edit.own'', ''posts.remove.own'']),
       connectors_get = (\<lambda>s c k projection.
          case demo_key_id k of None \<Rightarrow> Inr None | Some i \<Rightarrow> Inr (map_of s i)),
       createMutator = (\<lambda>s c dat user validate ctx.
          case dat of
            None \<Rightarrow> (s, Inl (ExternalFailure ''no data''))
          | Some doc \<Rightarrow> (s @ [(fst doc, doc)], Inr doc)),
       updateMutator = (\<lambda>s c i dat user validate ctx.
          case (i, dat) of
            (Some j, Some doc) \<Rightarrow> (map (\<lambda>p. if fst p = j then (j, doc) else p) s, Inr doc)
          | _ \<Rightarrow> (s, Inl (ExternalFailure ''no document''))),
       deleteMutator = (\<lambda>s c i user validate ctx.
          case i of
            None \<Rightarrow> (s, Inl (ExternalFailure ''no document''))
          | Some j \<Rightarrow>
              (case map_of s j of
                 None \<Rightarrow> (s, Inl (ExternalFailure ''no document''))
               | Some doc \<Rightarrow> (filter (\<lambda>p. fst p \<noteq> j) s, Inr doc))),
       coll_mutations = (\<lambda>c. \<lparr> mutations_create = None, mutations_update = None,
                                 mutations_upsert = None, mutations_delete = None \<rparr>) \<rparr>"

text \<open>The descriptors of \<open>getDefaultMutations('Posts')\<close>, called with no options.\<close>

definition demo_mutations :: "(string, demo_doc, string, demo_store) mutations" where
  "demo_mutations = snd (getDefaultMutations (\<lambda>d calls. calls @ [d]) demo_env0 ''Posts'' None [])"

text \<open>The same environment once every collection carries these descriptors.\<close>

definition demo_env :: "(string, demo_doc, string, demo_store) env" where
  "demo_env = demo_env0\<lparr> coll_mutations := (\<lambda>c. demo_mutations) \<rparr>"

definition demo_context :: "string option \<Rightarrow> (string, string) request_context" where
  "demo_context user =
     \<lparr> currentUser = user,
       collections = (\<lambda>n. if n = ''Posts'' then Some ''posts-collection'' else None) \<rparr>"

definition demo_world :: "(string, demo_doc, string, demo_store) world" where
  "demo_world = \<lparr> store = [(''d1'', (''d1'', ''alice''))], trace = [] \<rparr>"

text \<open>Options with an override for each of the three checks: only \<open>carol\<close> passes.\<close>

definition demo_override_options :: "(string, demo_doc) options" where
  "demo_override_options =
     \<lparr> create = Some True, update = Some True, upsert = Some True, delete = Some True,
       newCheck = Some (\<lambda>user document. user = Some ''carol''),
       editCheck = Some (\<lambda>user document. user = Some ''carol''),
       removeCheck = Some (\<lambda>user document. user = Some ''carol'') \<rparr>"

text \<open>\<open>{ input: { selector: { documentId }, data } }\<close>\<close>

definition demo_args :: "doc_id \<Rightarrow> demo_doc \<Rightarrow> demo_doc mutation_args" where
  "demo_args i doc =
     \<lparr> input = Some \<lparr> selector = Some \<lparr> documentId = Some i \<rparr>, data = Some doc \<rparr>,
       arg_selector = None, arg_data = None \<rparr>"

text \<open>
  A collection whose configured \<open>create\<close> and \<open>update\<close> handlers only report that they
  ran, so that the handler an upsert dispatches to can be read off the outcome.
\<close>

definition marking_handler :: "string \<Rightarrow> (string, demo_doc, string, demo_store) handler" where
  "marking_handler tag this_check root args ctx w = (w, Inl (ExternalFailure tag))"

definition demo_env_marked :: "(string, demo_doc, string, demo_store) env" where
  "demo_env_marked =
     demo_env0\<lparr> coll_mutations := (\<lambda>c.
       \<lparr> mutations_create =
           Some \<lparr> description = ''create'', check = None, mutation = marking_handler ''create handler'' \<rparr>,
         mutations_update =
           Some \<lparr> description = ''update'', check = None, mutation = marking_handler ''update handler'' \<rparr>,
         mutations_upsert = None,
         mutations_delete = None \<rparr>) \<rparr>"

text \<open>The descriptors generated with these overrides, over a given environment.\<close>

definition demo_override_mutations ::
  "(string, demo_doc, string, demo_store) env \<Rightarrow> (string, demo_doc, string, demo_store) mutations" where
  "demo_override_mutations E =
     snd (getDefaultMutations (\<lambda>d calls. calls @ [d]) E ''Posts'' (Some demo_override_options) [])"

text \<open>The default descriptors generated over the environment with the reporting handlers.\<close>

definition demo_marked_mutations :: "(string, demo_doc, string, demo_store) mutations" where
  "demo_marked_mutations =
     snd (getDefaultMutations (\<lambda>d calls. calls @ [d]) demo_env_marked ''Posts'' None [])"

text \<open>
  Properties of a checkbox group whose options have the given labels (each option's
  value is its label), with the three class names that \<open>withStyles(styles)\<close> provides.
\<close>

definition demo_classes :: "string \<Rightarrow> string option" where
  "demo_classes k =
     (if k = ''group'' then Some ''group-1''
      else if k = ''twoColumn'' then Some ''twoColumn-2''
      else if k = ''threeColumn'' then Some ''threeColumn-3''
      else None)"

definition demo_props :: "string list \<Rightarrow> props" where
  "demo_props labels =
     \<lparr> inputProperties =
         \<lparr> name = ''tags'',
           options = map (\<lambda>l. \<lparr> opt_value = l, label = l, opt_disabled = False \<rparr>) labels,
           disabled = False,
           form_value = [] \<rparr>,
       variant = ''checkbox'',
       classes = demo_classes \<rparr>"

text \<open>
  A collection configured with a reporting \<open>create\<close> handler and no \<open>update\<close>
  descriptor.
\<close>

definition demo_env_create_only :: "(string, demo_doc, string, demo_store) env" where
  "demo_env_create_only =
     demo_env0\<lparr> coll_mutations := (\<lambda>c.
       \<lparr> mutations_create =
           Some \<lparr> description = ''create'', check = None, mutation = marking_handler ''create handler'' \<rparr>,
         mutations_update = None,
         mutations_upsert = None,
         mutations_delete = None \<rparr>) \<rparr>"

text \<open>
  A collection configured with the descriptors of
  \<open>getDefaultMutations('Posts', { create: true, upsert: true })\<close>.
\<close>

definition demo_create_upsert_options :: "(string, demo_doc) options" where
  "demo_create_upsert_options =
     \<lparr> create = Some True, update = None, upsert = Some True, delete = None,
       newCheck = None, editCheck = None, removeCheck = None \<rparr>"

definition demo_env_create_upsert :: "(string, demo_doc, string, demo_store) env" where
  "demo_env_create_upsert =
     demo_env0\<lparr> coll_mutations := (\<lambda>c.
       snd (getDefaultMutations (\<lambda>d calls. calls @ [d]) demo_env0 ''Posts''
              (Some demo_create_upsert_options) [])) \<rparr>"

section \<open>Results: MuiCheckboxGroup\<close>

lemma indexOf_self: "indexOf v v = 0"
  by (cases v) (simp_all add: indexOf_def)

lemma Max_insert_if:
  fixes a l :: nat
  assumes "finite S"
  shows "Max (insert (if a < l then l else a) S) = Max (insert a (insert l S))"
proof (cases "S = {}")
  case True
  then show ?thesis by (simp add: max_def)
next
  case False
  with assms show ?thesis by (simp add: max_def)
qed

lemma reduce_is_Max:
  "foldl (\<lambda>mx option. if length (label option) > mx then length (label option) else mx) a opts
     = Max (insert a ((\<lambda>option. length (label option)) ` set opts))"
proof (induction opts arbitrary: a)
  case Nil
  show ?case by simp
next
  case (Cons x xs)
  show ?case
    by (simp add: Cons.IH Max_insert_if del: Max_insert)
qed

text \<open>
  C8: in \<open>renderElement\<close> the column class depends on the options through their label
  lengths only. With \<open>m\<close> the greatest label length (0 when there is no option), it is
  \<open>threeColumn\<close> when \<open>m < 20\<close>, \<open>twoColumn\<close> when \<open>20 \<le> m < 30\<close>, and the empty
  name otherwise; the group's class is built from \<open>classes.group\<close> and the class
  registered under that name.
\<close>

theorem columnClass_by_label_lengths:
  "maxLength opts = Max (insert 0 ((\<lambda>option. length (label option)) ` set opts))
 \<and> columnClass opts =
      (if Max (insert 0 ((\<lambda>option. length (label option)) ` set opts)) < 20 then ''threeColumn''
       else if Max (insert 0 ((\<lambda>option. length (label option)) ` set opts)) < 30 then ''twoColumn''
       else [])
 \<and> className (renderElement p) =
      classNames [classes p ''group'', classes p (columnClass (options (inputProperties p)))]
 \<and> (classes p [] = None \<longrightarrow> 30 \<le> maxLength (options (inputProperties p)) \<longrightarrow>
       className (renderElement p) = classNames [classes p ''group''])"
proof -
  have a: "maxLength opts = Max (insert 0 ((\<lambda>option. length (label option)) ` set opts))"
    by (simp only: maxLength_def reduce_is_Max)
  have b: "columnClass opts =
      (if Max (insert 0 ((\<lambda>option. length (label option)) ` set opts)) < 20 then ''threeColumn''
       else if Max (insert 0 ((\<lambda>option. length (label option)) ` set opts)) < 30 then ''twoColumn''
       else [])"
    by (simp only: columnClass_def a)
  have c: "className (renderElement p) =
      classNames [classes p ''group'', classes p (columnClass (options (inputProperties p)))]"
    by (simp add: renderElement_def Let_def)
  have d: "classes p [] = None \<longrightarrow> 30 \<le> maxLength (options (inputProperties p)) \<longrightarrow>
       className (renderElement p) = classNames [classes p ''group'']"
    by (simp add: c columnClass_def classNames_def)
  from a b c d show ?thesis by (simp only: simp_thms)
qed

theorem columnClass_by_label_lengths_witness:
  "className (renderElement (demo_props [''red'', ''a label of thirty-two characters''])) = ''group-1''
 \<and> className (renderElement (demo_props [''red'', ''twenty-one characters''])) = ''group-1 twoColumn-2''
 \<and> className (renderElement (demo_props [''red'', ''green''])) = ''group-1 threeColumn-3''
 \<and> className (renderElement (demo_props [])) = ''group-1 threeColumn-3''"
  using columnClass_by_label_lengths
          [where p = "demo_props [''red'', ''a label of thirty-two characters'']"
             and opts = "options (inputProperties (demo_props [''red'', ''a label of thirty-two characters'']))"]
  by (simp add: demo_props_def demo_classes_def renderElement_def columnClass_def maxLength_def
        classNames_def Let_def)

lemma render_control_checked: "checked (render_control p k c) = True"
  by (simp add: render_control_def Let_def indexOf_self)

lemma map_checked_controls:
  "map checked (map (\<lambda>(k, c). render_control p k c) kcs) = replicate (length kcs) True"
  by (induction kcs) (auto simp: render_control_checked)

lemma map_value_controls:
  "map control_value (map (\<lambda>(k, c). render_control p k c) kcs) = map opt_value (map snd kcs)"
  by (induction kcs) (auto simp: render_control_def Let_def)

text \<open>
  C9: \<open>checked\<close> is computed from the option's own value, \<open>value.indexOf(value) !== -1\<close>,
  and a string always occurs in itself at index 0 (the empty string too). So every
  control of the rendered group is checked, one control per option and carrying that
  option's value, and the rendering does not depend on the current value of the form
  field.
\<close>

theorem checked_for_every_option:
  "map checked (children (renderElement p)) = replicate (length (options (inputProperties p))) True
 \<and> map control_value (children (renderElement p)) = map opt_value (options (inputProperties p))
 \<and> renderElement (p\<lparr>inputProperties := (inputProperties p)\<lparr>form_value := v\<rparr>\<rparr>) = renderElement p
 \<and> indexOf [] [] = 0"
proof -
  have a: "map checked (children (renderElement p)) = replicate (length (options (inputProperties p))) True"
    by (simp add: renderElement_def Let_def map_checked_controls del: map_map)
  have b: "map control_value (children (renderElement p)) = map opt_value (options (inputProperties p))"
    by (simp add: renderElement_def Let_def map_value_controls del: map_map)
  have c: "renderElement (p\<lparr>inputProperties := (inputProperties p)\<lparr>form_value := v\<rparr>\<rparr>) = renderElement p"
    by (simp add: renderElement_def render_control_def)
  from a b c show ?thesis by (simp add: indexOf_self)
qed

section \<open>Results: the mutation factory\<close>

lemma gdm_create:
  "mutations_create (snd (getDefaultMutations reg E T oa r)) =
     (if truthy (create (options_or_default oa)) then
        Some \<lparr> description = ''Mutation for creating new '' @ T @ '' documents'',
               check = Some (create_check E T (options_or_default oa)),
               mutation = create_mutation E T \<rparr>
      else None)"
  by (simp add: getDefaultMutations_def Let_def)

lemma gdm_update:
  "mutations_update (snd (getDefaultMutations reg E T oa r)) =
     (if truthy (update (options_or_default oa)) then
        Some \<lparr> description = ''Mutation for updating a '' @ T @ '' document'',
               check = Some (update_check E T (options_or_default oa)),
               mutation = update_mutation E T \<rparr>
      else None)"
  by (simp add: getDefaultMutations_def Let_def)

lemma gdm_upsert:
  "mutations_upsert (snd (getDefaultMutations reg E T oa r)) =
     (if truthy (upsert (options_or_default oa)) then
        Some \<lparr> description = ''Mutation for upserting a '' @ T @ '' document'',
               check = None,
               mutation = upsert_mutation E T \<rparr>
      else None)"
  by (simp add: getDefaultMutations_def Let_def)

lemma gdm_delete:
  "mutations_delete (snd (getDefaultMutations reg E T oa r)) =
     (if truthy (delete (options_or_default oa)) then
        Some \<lparr> description = ''Mutation for deleting a '' @ T @ '' document'',
               check = Some (delete_check E T (options_or_default oa)),
               mutation = delete_mutation E T \<rparr>
      else None)"
  by (simp add: getDefaultMutations_def Let_def)

lemma gdm_registry:
  "fst (getDefaultMutations reg E T oa r) = registerCollectionCallbacks reg T r"
  by (simp add: getDefaultMutations_def Let_def)

lemma lower_Posts: "toLowerCase ''Posts'' = ''posts''"
  by (simp add: toLowerCase_def toLowerCase_char_def)

lemmas demo_simps =
  demo_mutations_def gdm_create gdm_update gdm_upsert gdm_delete options_or_default_def
  truthy_def default_options_def lower_Posts

text \<open>
  C7: \<open>getDefaultMutations\<close> returns exactly the descriptors whose flag in the given
  options is true, for every type name and every options object; called with no
  options it returns all four.
\<close>

theorem getDefaultMutations_flags:
  "(mutations_create (snd (getDefaultMutations reg E T (Some opts) r)) \<noteq> None) = (create opts = Some True)
 \<and> (mutations_update (snd (getDefaultMutations reg E T (Some opts) r)) \<noteq> None) = (update opts = Some True)
 \<and> (mutations_upsert (snd (getDefaultMutations reg E T (Some opts) r)) \<noteq> None) = (upsert opts = Some True)
 \<and> (mutations_delete (snd (getDefaultMutations reg E T (Some opts) r)) \<noteq> None) = (delete opts = Some True)
 \<and> mutations_create (snd (getDefaultMutations reg E T None r)) \<noteq> None
 \<and> mutations_update (snd (getDefaultMutations reg E T None r)) \<noteq> None
 \<and> mutations_upsert (snd (getDefaultMutations reg E T None r)) \<noteq> None
 \<and> mutations_delete (snd (getDefaultMutations reg E T None r)) \<noteq> None"
  by (simp add: gdm_create gdm_update gdm_upsert gdm_delete truthy_def options_or_default_def
        default_options_def)

text \<open>
  C1: for the update and delete descriptors of \<open>getDefaultMutations\<close> with no override
  configured, \<open>check(user, document)\<close> is false when the user or the document is absent.
  When both are present it is true exactly when the user owns the document and may do
  \<open><type>.edit.own\<close>, or does not own it and may do \<open><type>.edit.all\<close>, with the type
  name in lower case; for delete the actions are \<open><type>.remove.own\<close> and
  \<open><type>.remove.all\<close>.
\<close>

theorem default_check_update_delete:
  "(editCheck (options_or_default oa) = None \<longrightarrow>
      mutations_update (snd (getDefaultMutations reg E T oa r)) = Some du \<longrightarrow>
        call_check du None document = Inr False
      \<and> call_check du user None = Inr False
      \<and> call_check du (Some u) (Some d) =
          Inr ((owns E u d \<and> canDo E (Some u) (toLowerCase T @ ''.edit.own''))
             \<or> (\<not> owns E u d \<and> canDo E (Some u) (toLowerCase T @ ''.edit.all''))))
 \<and> (removeCheck (options_or_default oa) = None \<longrightarrow>
      mutations_delete (snd (getDefaultMutations reg E T oa r)) = Some dd \<longrightarrow>
        call_check dd None document = Inr False
      \<and> call_check dd user None = Inr False
      \<and> call_check dd (Some u) (Some d) =
          Inr ((owns E u d \<and> canDo E (Some u) (toLowerCase T @ ''.remove.own''))
             \<or> (\<not> owns E u d \<and> canDo E (Some u) (toLowerCase T @ ''.remove.all''))))"
  by (auto simp: gdm_update gdm_delete call_check_def update_check_def delete_check_def
           split: if_splits option.splits)

theorem default_check_update_delete_witness:
  "call_check (the (mutations_update demo_mutations)) None (Some (''d1'', ''alice'')) = Inr False
 \<and> call_check (the (mutations_update demo_mutations)) (Some ''alice'') None = Inr False
 \<and> call_check (the (mutations_update demo_mutations)) (Some ''alice'') (Some (''d1'', ''alice'')) = Inr True
 \<and> call_check (the (mutations_delete demo_mutations)) None (Some (''d1'', ''alice'')) = Inr False
 \<and> call_check (the (mutations_delete demo_mutations)) (Some ''alice'') None = Inr False
 \<and> call_check (the (mutations_delete demo_mutations)) (Some ''alice'') (Some (''d1'', ''alice'')) = Inr True"
  using default_check_update_delete
          [where oa = None and reg = "\<lambda>d calls. calls @ [d]" and E = demo_env0 and T = "''Posts''"
             and r = "[]" and du = "the (mutations_update demo_mutations)"
             and dd = "the (mutations_delete demo_mutations)"
             and document = "Some (''d1'', ''alice'')" and user = "Some ''alice''"
             and u = "''alice''" and d = "(''d1'', ''alice'')"]
  by (simp add: demo_simps demo_env0_def)

text \<open>
  C10: the default \<open>{ create: true, update: true, upsert: true, delete: true }\<close> belongs
  to the parameter as a whole. When the caller passes an options object, a flag that
  the object leaves out counts as false and its descriptor is not generated:
  \<open>getDefaultMutations(T, { create: true })\<close> returns the create descriptor alone.
\<close>

theorem absent_flag_counts_as_false:
  "(create opts = None \<longrightarrow> mutations_create (snd (getDefaultMutations reg E T (Some opts) r)) = None)
 \<and> (update opts = None \<longrightarrow> mutations_update (snd (getDefaultMutations reg E T (Some opts) r)) = None)
 \<and> (upsert opts = None \<longrightarrow> mutations_upsert (snd (getDefaultMutations reg E T (Some opts) r)) = None)
 \<and> (delete opts = None \<longrightarrow> mutations_delete (snd (getDefaultMutations reg E T (Some opts) r)) = None)
 \<and> (create opts = Some True \<longrightarrow>
       mutations_create (snd (getDefaultMutations reg E T (Some opts) r)) \<noteq> None)"
  by (simp add: gdm_create gdm_update gdm_upsert gdm_delete truthy_def options_or_default_def)

theorem absent_flag_counts_as_false_witness:
  "mutations_create (snd (getDefaultMutations (\<lambda>d calls. calls @ [d]) demo_env0 ''Posts''
      (Some \<lparr> create = Some True, update = None, upsert = None, delete = None,
              newCheck = None, editCheck = None, removeCheck = None \<rparr>) [])) \<noteq> None
 \<and> mutations_update (snd (getDefaultMutations (\<lambda>d calls. calls @ [d]) demo_env0 ''Posts''
      (Some \<lparr> create = Some True, update = None, upsert = None, delete = None,
              newCheck = None, editCheck = None, removeCheck = None \<rparr>) [])) = None
 \<and> mutations_upsert (snd (getDefaultMutations (\<lambda>d calls. calls @ [d]) demo_env0 ''Posts''
      (Some \<lparr> create = Some True, update = None, upsert = None, delete = None,
              newCheck = None, editCheck = None, removeCheck = None \<rparr>) [])) = None
 \<and> mutations_delete (snd (getDefaultMutations (\<lambda>d calls. calls @ [d]) demo_env0 ''Posts''
      (Some \<lparr> create = Some True, update = None, upsert = None, delete = None,
              newCheck = None, editCheck = None, removeCheck = None \<rparr>) [])) = None"
  using absent_flag_counts_as_false
          [where opts = "\<lparr> create = Some True, update = None, upsert = None, delete = None,
                           newCheck = None, editCheck = None, removeCheck = None \<rparr>"
             and reg = "\<lambda>d calls. calls @ [d]" and E = demo_env0 and T = "''Posts''" and r = "[]"]
  by simp

text \<open>
  C2: when the options carry an override (\<open>newCheck\<close> for create, \<open>editCheck\<close> for
  update, \<open>removeCheck\<close> for delete), the descriptor's \<open>check\<close> returns the result of
  that function on the same user and document, and nothing else. The descriptor
  generated over an environment that differs in \<open>Users.owns\<close> and \<open>Users.canDo\<close> gives
  the same decision.
\<close>

theorem override_check_decides:
  "(newCheck opts = Some f \<longrightarrow>
      mutations_create (snd (getDefaultMutations reg E T (Some opts) r)) = Some dc \<longrightarrow>
      mutations_create (snd (getDefaultMutations reg (E\<lparr>owns := owns', canDo := canDo'\<rparr>) T (Some opts) r))
        = Some dc' \<longrightarrow>
        call_check dc user document = Inr (f user document)
      \<and> call_check dc' user document = call_check dc user document)
 \<and> (editCheck opts = Some f \<longrightarrow>
      mutations_update (snd (getDefaultMutations reg E T (Some opts) r)) = Some du \<longrightarrow>
      mutations_update (snd (getDefaultMutations reg (E\<lparr>owns := owns', canDo := canDo'\<rparr>) T (Some opts) r))
        = Some du' \<longrightarrow>
        call_check du user document = Inr (f user document)
      \<and> call_check du' user document = call_check du user document)
 \<and> (removeCheck opts = Some f \<longrightarrow>
      mutations_delete (snd (getDefaultMutations reg E T (Some opts) r)) = Some dd \<longrightarrow>
      mutations_delete (snd (getDefaultMutations reg (E\<lparr>owns := owns', canDo := canDo'\<rparr>) T (Some opts) r))
        = Some dd' \<longrightarrow>
        call_check dd user document = Inr (f user document)
      \<and> call_check dd' user document = call_check dd user document)"
  by (auto simp: gdm_create gdm_update gdm_delete call_check_def create_check_def update_check_def
        delete_check_def options_or_default_def split: if_splits)

theorem override_check_decides_witness:
  "call_check (the (mutations_create (demo_override_mutations demo_env0)))
     (Some ''alice'') (Some (''d1'', ''alice'')) = Inr False
 \<and> call_check (the (mutations_update (demo_override_mutations demo_env0)))
     (Some ''alice'') (Some (''d1'', ''alice'')) = Inr False
 \<and> call_check (the (mutations_delete (demo_override_mutations demo_env0)))
     (Some ''alice'') (Some (''d1'', ''alice'')) = Inr False
 \<and> call_check (the (mutations_create
       (demo_override_mutations (demo_env0\<lparr>owns := (\<lambda>u d. True), canDo := (\<lambda>u a. True)\<rparr>))))
     (Some ''alice'') (Some (''d1'', ''alice'')) = Inr False
 \<and> call_check (the (mutations_update
       (demo_override_mutations (demo_env0\<lparr>owns := (\<lambda>u d. True), canDo := (\<lambda>u a. True)\<rparr>))))
     (Some ''alice'') (Some (''d1'', ''alice'')) = Inr False
 \<and> call_check (the (mutations_delete
       (demo_override_mutations (demo_env0\<lparr>owns := (\<lambda>u d. True), canDo := (\<lambda>u a. True)\<rparr>))))
     (Some ''alice'') (Some (''d1'', ''alice'')) = Inr False"
  using override_check_decides
          [where opts = demo_override_options and f = "\<lambda>user document. user = Some ''carol''"
             and reg = "\<lambda>d calls. calls @ [d]" and E = demo_env0 and T = "''Posts''" and r = "[]"
             and owns' = "\<lambda>u d. True" and canDo' = "\<lambda>u a. True"
             and user = "Some ''alice''" and document = "Some (''d1'', ''alice'')"
             and dc = "the (mutations_create (demo_override_mutations demo_env0))"
             and du = "the (mutations_update (demo_override_mutations demo_env0))"
             and dd = "the (mutations_delete (demo_override_mutations demo_env0))"
             and dc' = "the (mutations_create
                 (demo_override_mutations (demo_env0\<lparr>owns := (\<lambda>u d. True), canDo := (\<lambda>u a. True)\<rparr>)))"
             and du' = "the (mutations_update
                 (demo_override_mutations (demo_env0\<lparr>owns := (\<lambda>u d. True), canDo := (\<lambda>u a. True)\<rparr>)))"
             and dd' = "the (mutations_delete
                 (demo_override_mutations (demo_env0\<lparr>owns := (\<lambda>u d. True), canDo := (\<lambda>u a. True)\<rparr>)))"]
  by (simp add: demo_override_mutations_def demo_override_options_def gdm_create gdm_update
        gdm_delete options_or_default_def truthy_def)

section \<open>Results: callback registration\<close>

lemma registered_fold: "registerCollectionCallbacks reg T r = fold reg (registered T) r"
  by (simp add: registered_def registerCollectionCallbacks_def Let_def)

lemma registered_table:
  "map (\<lambda>d. (cb_name d, map fst (arguments d), runs d)) (registered T) =
     map (\<lambda>(sfx, args, mode). (toLowerCase T @ sfx, args, mode))
       [(''.create.validate'', [''document'', ''currentUser'', ''validationErrors''], ''sync''),
        (''.create.before'', [''document'', ''currentUser''], ''sync''),
        (''.create.after'', [''document'', ''currentUser''], ''sync''),
        (''.create.async'', [''document'', ''currentUser'', ''collection''], ''async''),
        (''.update.validate'', [''modifier'', ''document'', ''currentUser'', ''validationErrors''], ''sync''),
        (''.update.before'', [''modifier'', ''document'', ''currentUser''], ''sync''),
        (''.update.after'', [''modifier'', ''document'', ''currentUser''], ''sync''),
        (''.update.async'', [''newDocument'', ''document'', ''currentUser'', ''collection''], ''async''),
        (''.delete.validate'', [''document'', ''currentUser'', ''validationErrors''], ''sync''),
        (''.delete.before'', [''document'', ''currentUser''], ''sync''),
        (''.delete.async'', [''document'', ''currentUser'', ''collection''], ''async'')]"
  by (simp add: registered_def registerCollectionCallbacks_def Let_def)

lemma registered_names:
  "map cb_name (registered T) = map (\<lambda>sfx. toLowerCase T @ sfx)
     [''.create.validate'', ''.create.before'', ''.create.after'', ''.create.async'',
      ''.update.validate'', ''.update.before'', ''.update.after'', ''.update.async'',
      ''.delete.validate'', ''.delete.before'', ''.delete.async'']"
  by (simp add: registered_def registerCollectionCallbacks_def Let_def)

lemma registered_length: "length (registered T) = 11"
  using arg_cong [OF registered_names, of length] by simp

lemma registered_distinct: "distinct (map cb_name (registered T))"
  by (simp add: registered_names)

lemma registered_name_set:
  "set (map cb_name (registered T)) =
     (\<lambda>(action, phase). toLowerCase T @ ''.'' @ action @ ''.'' @ phase) `
       (({''create'', ''update''} \<times> {''validate'', ''before'', ''after'', ''async''})
        \<union> ({''delete''} \<times> {''validate'', ''before'', ''async''}))"
  by (simp add: registered_names image_Un insert_commute)

text \<open>
  C6, as the source has it: for every type name, \<open>registerCollectionCallbacks\<close> calls
  \<open>registerCallback\<close> eleven times, with eleven distinct names
  \<open><lowercased-type>.<action>.<phase>\<close>: the phases validate, before, after and async for
  create and for update, and the phases validate, before and async for delete (no
  \<open>delete.after\<close> is registered). The async definitions run \<open>async\<close>, all others
  \<open>sync\<close>, and each carries the argument names listed below.
\<close>

theorem registerCollectionCallbacks_eleven:
  "registerCollectionCallbacks reg T r = fold reg (registered T) r
 \<and> length (registered T) = 11
 \<and> distinct (map cb_name (registered T))
 \<and> set (map cb_name (registered T)) =
     (\<lambda>(action, phase). toLowerCase T @ ''.'' @ action @ ''.'' @ phase) `
       (({''create'', ''update''} \<times> {''validate'', ''before'', ''after'', ''async''})
        \<union> ({''delete''} \<times> {''validate'', ''before'', ''async''}))
 \<and> map (\<lambda>d. (cb_name d, map fst (arguments d), runs d)) (registered T) =
     map (\<lambda>(sfx, args, mode). (toLowerCase T @ sfx, args, mode))
       [(''.create.validate'', [''document'', ''currentUser'', ''validationErrors''], ''sync''),
        (''.create.before'', [''document'', ''currentUser''], ''sync''),
        (''.create.after'', [''document'', ''currentUser''], ''sync''),
        (''.create.async'', [''document'', ''currentUser'', ''collection''], ''async''),
        (''.update.validate'', [''modifier'', ''document'', ''currentUser'', ''validationErrors''], ''sync''),
        (''.update.before'', [''modifier'', ''document'', ''currentUser''], ''sync''),
        (''.update.after'', [''modifier'', ''document'', ''currentUser''], ''sync''),
        (''.update.async'', [''newDocument'', ''document'', ''currentUser'', ''collection''], ''async''),
        (''.delete.validate'', [''document'', ''currentUser'', ''validationErrors''], ''sync''),
        (''.delete.before'', [''document'', ''currentUser''], ''sync''),
        (''.delete.async'', [''document'', ''currentUser'', ''collection''], ''async'')]"
  using registered_fold [of reg T r] registered_length [of T] registered_distinct [of T]
    registered_name_set [of T] registered_table [of T]
  by (simp only: simp_thms)

text \<open>
  C6, as the claim states it, fails for \<open>Posts\<close>: the number of registered definitions
  is not twelve, and \<open>posts.delete.after\<close> is not among their names.
\<close>

theorem registerCollectionCallbacks_not_twelve:
  "length (registered ''Posts'') \<noteq> 12
 \<and> ''posts.delete.after'' \<notin> set (map cb_name (registered ''Posts''))"
  by (simp add: registered_names registered_length toLowerCase_def toLowerCase_char_def)

section \<open>Results: the mutation handlers\<close>

lemma create_mutation_run:
  "input args = Some inp \<Longrightarrow>
   create_mutation E T (Some chk) root args ctx w =
     (if chk (currentUser ctx) (data inp) then
        call_createMutator E (collections ctx T) (data inp) (currentUser ctx) True ctx
          (w\<lparr>trace := trace w @ [PerformCheck (currentUser ctx) (data inp) None]\<rparr>)
      else (w\<lparr>trace := trace w @ [PerformCheck (currentUser ctx) (data inp) None]\<rparr>,
            Inl AuthorizationDenied))"
  by (simp add: create_mutation_def performCheck_def log_def Let_def)

lemma update_mutation_run:
  "input args = Some inp \<Longrightarrow> selector inp = Some sel \<Longrightarrow>
   connectors_get E (store w) (collections ctx T) (ById (documentId sel)) None = Inr doc \<Longrightarrow>
   update_mutation E T (Some chk) root args ctx w =
     (if chk (currentUser ctx) doc then
        call_updateMutator E (collections ctx T) (documentId sel) (data inp) (currentUser ctx) True ctx
          (w\<lparr>trace := trace w @ [ConnectorsGet (collections ctx T) (ById (documentId sel)) None,
                                  PerformCheck (currentUser ctx) doc None]\<rparr>)
      else (w\<lparr>trace := trace w @ [ConnectorsGet (collections ctx T) (ById (documentId sel)) None,
                                   PerformCheck (currentUser ctx) doc None]\<rparr>,
            Inl AuthorizationDenied))"
  by (simp add: update_mutation_def call_get_def performCheck_def log_def Let_def)

lemma delete_mutation_run:
  "input args = Some inp \<Longrightarrow> selector inp = Some sel \<Longrightarrow>
   connectors_get E (store w) (collections ctx T) (ById (documentId sel)) None = Inr doc \<Longrightarrow>
   delete_mutation E T (Some chk) root args ctx w =
     (if chk (currentUser ctx) doc then
        call_deleteMutator E (collections ctx T) (documentId sel) (currentUser ctx) True ctx
          (w\<lparr>trace := trace w @ [ConnectorsGet (collections ctx T) (ById (documentId sel)) None,
                                  PerformCheck (currentUser ctx) doc (Some ctx)]\<rparr>)
      else (w\<lparr>trace := trace w @ [ConnectorsGet (collections ctx T) (ById (documentId sel)) None,
                                   PerformCheck (currentUser ctx) doc (Some ctx)]\<rparr>,
            Inl AuthorizationDenied))"
  by (simp add: delete_mutation_def call_get_def performCheck_def log_def Let_def)

lemma trace_call_createMutator:
  "trace (fst (call_createMutator E c dat u v ctx w)) = trace w @ [CreateMutator c dat u v ctx]"
  by (simp add: call_createMutator_def log_def split: prod.splits)

lemma trace_call_updateMutator:
  "trace (fst (call_updateMutator E c i dat u v ctx w)) = trace w @ [UpdateMutator c i dat u v ctx]"
  by (simp add: call_updateMutator_def log_def split: prod.splits)

lemma trace_call_deleteMutator:
  "trace (fst (call_deleteMutator E c i u v ctx w)) = trace w @ [DeleteMutator c i u v ctx]"
  by (simp add: call_deleteMutator_def log_def split: prod.splits)

text \<open>
  A fetch that fails ends the update and delete handlers at once, with the error of the
  connector: the check and the mutator are not reached.
\<close>

lemma fetch_failure_propagates:
  assumes "input args = Some inp" and "selector inp = Some sel"
    and "connectors_get E (store w) (collections ctx T) (ById (documentId sel)) None = Inl e"
  shows "update_mutation E T this_check root args ctx w =
           (w\<lparr>trace := trace w @ [ConnectorsGet (collections ctx T) (ById (documentId sel)) None]\<rparr>, Inl e)"
    and "delete_mutation E T this_check root args ctx w =
           (w\<lparr>trace := trace w @ [ConnectorsGet (collections ctx T) (ById (documentId sel)) None]\<rparr>, Inl e)"
  using assms by (simp_all add: update_mutation_def delete_mutation_def call_get_def log_def Let_def)

text \<open>
  C3: when the permission check of a generated create, update or delete descriptor
  fails, its handler ends with the authorization error and the mutator is never called:
  the storage is unchanged and the calls made are the check alone for create (no call to
  the storage connector, none to \<open>createMutator\<close>), the fetch and the check for update and
  delete.
\<close>

theorem denied_before_persistence:
  "(mutations_create (snd (getDefaultMutations reg E T oa r)) = Some dc \<longrightarrow>
      input args = Some inp \<longrightarrow>
      call_check dc (currentUser ctx) (data inp) = Inr False \<longrightarrow>
        invoke dc () args ctx w =
          (w\<lparr>trace := trace w @ [PerformCheck (currentUser ctx) (data inp) None]\<rparr>,
           Inl AuthorizationDenied))
 \<and> (mutations_update (snd (getDefaultMutations reg E T oa r)) = Some du \<longrightarrow>
      input args = Some inp \<longrightarrow> selector inp = Some sel \<longrightarrow>
      connectors_get E (store w) (collections ctx T) (ById (documentId sel)) None = Inr doc \<longrightarrow>
      call_check du (currentUser ctx) doc = Inr False \<longrightarrow>
        invoke du () args ctx w =
          (w\<lparr>trace := trace w @ [ConnectorsGet (collections ctx T) (ById (documentId sel)) None,
                                  PerformCheck (currentUser ctx) doc None]\<rparr>,
           Inl AuthorizationDenied))
 \<and> (mutations_delete (snd (getDefaultMutations reg E T oa r)) = Some dd \<longrightarrow>
      input args = Some inp \<longrightarrow> selector inp = Some sel \<longrightarrow>
      connectors_get E (store w) (collections ctx T) (ById (documentId sel)) None = Inr doc \<longrightarrow>
      call_check dd (currentUser ctx) doc = Inr False \<longrightarrow>
        invoke dd () args ctx w =
          (w\<lparr>trace := trace w @ [ConnectorsGet (collections ctx T) (ById (documentId sel)) None,
                                  PerformCheck (currentUser ctx) doc (Some ctx)]\<rparr>,
           Inl AuthorizationDenied))"
  by (auto simp: gdm_create gdm_update gdm_delete invoke_def call_check_def
        create_mutation_run update_mutation_run delete_mutation_run split: if_splits)

theorem denied_before_persistence_witness:
  "invoke (the (mutations_create demo_mutations)) () (demo_args ''d1'' (''d1'', ''mallory''))
      (demo_context None) demo_world =
     (demo_world\<lparr>trace := [PerformCheck None (Some (''d1'', ''mallory'')) None]\<rparr>,
      Inl AuthorizationDenied)
 \<and> invoke (the (mutations_update demo_mutations)) () (demo_args ''d1'' (''d1'', ''mallory''))
      (demo_context None) demo_world =
     (demo_world\<lparr>trace := [ConnectorsGet (Some ''posts-collection'') (ById (Some ''d1'')) None,
                             PerformCheck None (Some (''d1'', ''alice'')) None]\<rparr>,
      Inl AuthorizationDenied)
 \<and> invoke (the (mutations_delete demo_mutations)) () (demo_args ''d1'' (''d1'', ''mallory''))
      (demo_context None) demo_world =
     (demo_world\<lparr>trace := [ConnectorsGet (Some ''posts-collection'') (ById (Some ''d1'')) None,
                             PerformCheck None (Some (''d1'', ''alice'')) (Some (demo_context None))]\<rparr>,
      Inl AuthorizationDenied)"
  using denied_before_persistence
          [where reg = "\<lambda>d calls. calls @ [d]" and E = demo_env0 and T = "''Posts''" and oa = None
             and r = "[]" and dc = "the (mutations_create demo_mutations)"
             and du = "the (mutations_update demo_mutations)"
             and dd = "the (mutations_delete demo_mutations)"
             and args = "demo_args ''d1'' (''d1'', ''mallory'')"
             and inp = "\<lparr> selector = Some \<lparr> documentId = Some ''d1'' \<rparr>, data = Some (''d1'', ''mallory'') \<rparr>"
             and sel = "\<lparr> documentId = Some ''d1'' \<rparr>"
             and ctx = "demo_context None" and w = demo_world
             and doc = "Some (''d1'', ''alice'')"]
  by (simp add: demo_simps demo_env0_def demo_args_def demo_context_def demo_world_def
        call_check_def create_check_def update_check_def delete_check_def demo_key_id_def)

text \<open>
  C5: the update and delete handlers call \<open>Connectors.get\<close> with the \<open>documentId\<close> first
  and run the permission check second, on the document that the fetch returned; the
  mutator comes third, and only when the check passed. When the fetch returns no document
  and no override is configured, the check is denied and the handler ends with the
  authorization error after these two calls, the mutator not being called.
\<close>

theorem fetch_before_check:
  "(mutations_update (snd (getDefaultMutations reg E T oa r)) = Some du \<longrightarrow>
      input args = Some inp \<longrightarrow> selector inp = Some sel \<longrightarrow>
      connectors_get E (store w) (collections ctx T) (ById (documentId sel)) None = Inr doc \<longrightarrow>
        trace (fst (invoke du () args ctx w)) =
          trace w @ [ConnectorsGet (collections ctx T) (ById (documentId sel)) None,
                     PerformCheck (currentUser ctx) doc None]
                  @ (if call_check du (currentUser ctx) doc = Inr True
                     then [UpdateMutator (collections ctx T) (documentId sel) (data inp)
                             (currentUser ctx) True ctx]
                     else [])
      \<and> (editCheck (options_or_default oa) = None \<longrightarrow> doc = None \<longrightarrow>
            invoke du () args ctx w =
              (w\<lparr>trace := trace w @ [ConnectorsGet (collections ctx T) (ById (documentId sel)) None,
                                      PerformCheck (currentUser ctx) None None]\<rparr>,
               Inl AuthorizationDenied)))
 \<and> (mutations_delete (snd (getDefaultMutations reg E T oa r)) = Some dd \<longrightarrow>
      input args = Some inp \<longrightarrow> selector inp = Some sel \<longrightarrow>
      connectors_get E (store w) (collections ctx T) (ById (documentId sel)) None = Inr doc \<longrightarrow>
        trace (fst (invoke dd () args ctx w)) =
          trace w @ [ConnectorsGet (collections ctx T) (ById (documentId sel)) None,
                     PerformCheck (currentUser ctx) doc (Some ctx)]
                  @ (if call_check dd (currentUser ctx) doc = Inr True
                     then [DeleteMutator (collections ctx T) (documentId sel) (currentUser ctx) True ctx]
                     else [])
      \<and> (removeCheck (options_or_default oa) = None \<longrightarrow> doc = None \<longrightarrow>
            invoke dd () args ctx w =
              (w\<lparr>trace := trace w @ [ConnectorsGet (collections ctx T) (ById (documentId sel)) None,
                                      PerformCheck (currentUser ctx) None (Some ctx)]\<rparr>,
               Inl AuthorizationDenied)))"
  by (auto simp: gdm_update gdm_delete invoke_def call_check_def
        update_mutation_run delete_mutation_run trace_call_updateMutator trace_call_deleteMutator
        update_check_def delete_check_def split: if_splits option.splits)

theorem fetch_before_check_witness:
  "invoke (the (mutations_update demo_mutations)) () (demo_args ''gone'' (''gone'', ''admin''))
      (demo_context (Some ''admin'')) demo_world =
     (demo_world\<lparr>trace := [ConnectorsGet (Some ''posts-collection'') (ById (Some ''gone'')) None,
                             PerformCheck (Some ''admin'') None None]\<rparr>,
      Inl AuthorizationDenied)
 \<and> invoke (the (mutations_delete demo_mutations)) () (demo_args ''gone'' (''gone'', ''admin''))
      (demo_context (Some ''admin'')) demo_world =
     (demo_world\<lparr>trace := [ConnectorsGet (Some ''posts-collection'') (ById (Some ''gone'')) None,
                             PerformCheck (Some ''admin'') None (Some (demo_context (Some ''admin'')))]\<rparr>,
      Inl AuthorizationDenied)"
  using fetch_before_check
          [where reg = "\<lambda>d calls. calls @ [d]" and E = demo_env0 and T = "''Posts''" and oa = None
             and r = "[]"
             and du = "the (mutations_update demo_mutations)"
             and dd = "the (mutations_delete demo_mutations)"
             and args = "demo_args ''gone'' (''gone'', ''admin'')"
             and inp = "\<lparr> selector = Some \<lparr> documentId = Some ''gone'' \<rparr>, data = Some (''gone'', ''admin'') \<rparr>"
             and sel = "\<lparr> documentId = Some ''gone'' \<rparr>"
             and ctx = "demo_context (Some ''admin'')" and w = demo_world
             and doc = None]
  by (simp add: demo_simps demo_env0_def demo_args_def demo_context_def demo_world_def
        demo_key_id_def)

lemma upsert_mutation_run:
  "input args = Some inp \<Longrightarrow> collections ctx T = Some c \<Longrightarrow>
   connectors_get E (store w) (Some c) (BySelector (selector inp)) (Some [''_id'']) = Inr found \<Longrightarrow>
   upsert_mutation E T this_check () args ctx w =
     (if found \<noteq> None then
        (case mutations_update (coll_mutations E c) of
           None \<Rightarrow>
             (w\<lparr>trace := trace w @ [ConnectorsGet (Some c) (BySelector (selector inp)) (Some [''_id''])]\<rparr>,
              Inl TypeError)
         | Some d \<Rightarrow>
             invoke d () \<lparr> input = None, arg_selector = selector inp, arg_data = data inp \<rparr> ctx
               (w\<lparr>trace := trace w @ [ConnectorsGet (Some c) (BySelector (selector inp)) (Some [''_id''])]\<rparr>))
      else
        (case mutations_create (coll_mutations E c) of
           None \<Rightarrow>
             (w\<lparr>trace := trace w @ [ConnectorsGet (Some c) (BySelector (selector inp)) (Some [''_id''])]\<rparr>,
              Inl TypeError)
         | Some d \<Rightarrow>
             invoke d () \<lparr> input = None, arg_selector = None, arg_data = data inp \<rparr> ctx
               (w\<lparr>trace := trace w @ [ConnectorsGet (Some c) (BySelector (selector inp)) (Some [''_id''])]\<rparr>)))"
  by (simp add: upsert_mutation_def call_get_def log_def Let_def)

lemma upsert_mutation_no_collection:
  "input args = Some inp \<Longrightarrow> collections ctx T = None \<Longrightarrow>
   connectors_get E (store w) None (BySelector (selector inp)) (Some [''_id'']) = Inr found \<Longrightarrow>
   upsert_mutation E T this_check () args ctx w =
     (w\<lparr>trace := trace w @ [ConnectorsGet None (BySelector (selector inp)) (Some [''_id''])]\<rparr>,
      Inl TypeError)"
  by (simp add: upsert_mutation_def call_get_def log_def Let_def)

text \<open>
  C4, as the source has it: the upsert descriptor has no \<open>check\<close>, and its handler makes
  one call of its own, the lookup by selector, and no permission check. On a collection
  that has the descriptor of the branch taken: when the lookup returns a document the
  outcome of the upsert is the outcome of one call of the collection's update handler
  (on \<open>{ selector, data }\<close>, in the state left by the lookup), whatever the create handler
  is; when it returns none, it is the outcome of one call of the collection's create
  handler (on \<open>{ data }\<close>), whatever the update handler is. When the descriptor of the
  branch taken is missing from the collection, or there is no collection under
  \<open>context[typeName]\<close>, the upsert ends in a \<open>TypeError\<close> right after the lookup and
  calls neither handler.
\<close>

theorem upsert_dispatch:
  "mutations_upsert (snd (getDefaultMutations reg E T oa r)) = Some dup \<longrightarrow>
   input args = Some inp \<longrightarrow>
     check dup = None
   \<and> (collections ctx T = Some c \<longrightarrow>
        (connectors_get E (store w) (Some c) (BySelector (selector inp)) (Some [''_id'']) = Inr (Some doc) \<longrightarrow>
         mutations_update (coll_mutations E c) = Some du \<longrightarrow>
           invoke dup () args ctx w =
             invoke du () \<lparr> input = None, arg_selector = selector inp, arg_data = data inp \<rparr> ctx
               (w\<lparr>trace := trace w @ [ConnectorsGet (Some c) (BySelector (selector inp)) (Some [''_id''])]\<rparr>))
      \<and> (connectors_get E (store w) (Some c) (BySelector (selector inp)) (Some [''_id'']) = Inr None \<longrightarrow>
         mutations_create (coll_mutations E c) = Some dc \<longrightarrow>
           invoke dup () args ctx w =
             invoke dc () \<lparr> input = None, arg_selector = None, arg_data = data inp \<rparr> ctx
               (w\<lparr>trace := trace w @ [ConnectorsGet (Some c) (BySelector (selector inp)) (Some [''_id''])]\<rparr>))
      \<and> (connectors_get E (store w) (Some c) (BySelector (selector inp)) (Some [''_id'']) = Inr (Some doc) \<longrightarrow>
         mutations_update (coll_mutations E c) = None \<longrightarrow>
           invoke dup () args ctx w =
             (w\<lparr>trace := trace w @ [ConnectorsGet (Some c) (BySelector (selector inp)) (Some [''_id''])]\<rparr>,
              Inl TypeError))
      \<and> (connectors_get E (store w) (Some c) (BySelector (selector inp)) (Some [''_id'']) = Inr None \<longrightarrow>
         mutations_create (coll_mutations E c) = None \<longrightarrow>
           invoke dup () args ctx w =
             (w\<lparr>trace := trace w @ [ConnectorsGet (Some c) (BySelector (selector inp)) (Some [''_id''])]\<rparr>,
              Inl TypeError)))
   \<and> (collections ctx T = None \<longrightarrow>
        connectors_get E (store w) None (BySelector (selector inp)) (Some [''_id'']) = Inr found \<longrightarrow>
          invoke dup () args ctx w =
            (w\<lparr>trace := trace w @ [ConnectorsGet None (BySelector (selector inp)) (Some [''_id''])]\<rparr>,
             Inl TypeError))"
  by (auto simp: gdm_upsert upsert_mutation_run upsert_mutation_no_collection
        invoke_def [of "\<lparr>description = d, check = None, mutation = upsert_mutation E T\<rparr>" for d]
        split: if_splits)

theorem upsert_dispatch_witness:
  "invoke (the (mutations_upsert demo_marked_mutations))
      () (demo_args ''d1'' (''d1'', ''alice'')) (demo_context (Some ''alice'')) demo_world =
     (demo_world\<lparr>trace := [ConnectorsGet (Some ''posts-collection'')
                               (BySelector (Some \<lparr> documentId = Some ''d1'' \<rparr>)) (Some [''_id''])]\<rparr>,
      Inl (ExternalFailure ''update handler''))
 \<and> invoke (the (mutations_upsert demo_marked_mutations))
      () (demo_args ''d2'' (''d2'', ''alice'')) (demo_context (Some ''alice'')) demo_world =
     (demo_world\<lparr>trace := [ConnectorsGet (Some ''posts-collection'')
                               (BySelector (Some \<lparr> documentId = Some ''d2'' \<rparr>)) (Some [''_id''])]\<rparr>,
      Inl (ExternalFailure ''create handler''))"
  using upsert_dispatch
          [where reg = "\<lambda>d calls. calls @ [d]" and E = demo_env_marked and T = "''Posts''" and oa = None
             and r = "[]"
             and dup = "the (mutations_upsert demo_marked_mutations)"
             and args = "demo_args ''d1'' (''d1'', ''alice'')"
             and inp = "\<lparr> selector = Some \<lparr> documentId = Some ''d1'' \<rparr>, data = Some (''d1'', ''alice'') \<rparr>"
             and ctx = "demo_context (Some ''alice'')" and w = demo_world and c = "''posts-collection''"
             and doc = "(''d1'', ''alice'')"
             and du = "\<lparr> description = ''update'', check = None, mutation = marking_handler ''update handler'' \<rparr>"
             and dc = "\<lparr> description = ''create'', check = None, mutation = marking_handler ''create handler'' \<rparr>"]
        upsert_dispatch
          [where reg = "\<lambda>d calls. calls @ [d]" and E = demo_env_marked and T = "''Posts''" and oa = None
             and r = "[]"
             and dup = "the (mutations_upsert demo_marked_mutations)"
             and args = "demo_args ''d2'' (''d2'', ''alice'')"
             and inp = "\<lparr> selector = Some \<lparr> documentId = Some ''d2'' \<rparr>, data = Some (''d2'', ''alice'') \<rparr>"
             and ctx = "demo_context (Some ''alice'')" and w = demo_world and c = "''posts-collection''"
             and doc = "(''d1'', ''alice'')"
             and du = "\<lparr> description = ''update'', check = None, mutation = marking_handler ''update handler'' \<rparr>"
             and dc = "\<lparr> description = ''create'', check = None, mutation = marking_handler ''create handler'' \<rparr>"]
  by (simp add: demo_marked_mutations_def gdm_upsert options_or_default_def truthy_def
        default_options_def demo_env_marked_def demo_env0_def demo_args_def demo_context_def
        demo_world_def demo_key_id_def invoke_def marking_handler_def)

text \<open>
  C4, as the claim states it ("never neither"), fails. On a collection with a create
  handler and no update descriptor the lookup finds the document \<open>d1\<close>, and the upsert
  ends in a \<open>TypeError\<close> having made the lookup only: the update handler does not
  exist, and the create handler, whose outcome would be its own report, is not called.
  The same happens on the collection configured by
  \<open>getDefaultMutations('Posts', { create: true, upsert: true })\<close>.
\<close>

theorem upsert_dispatch_neither:
  "connectors_get demo_env_create_only (store demo_world) (Some ''posts-collection'')
      (BySelector (Some \<lparr> documentId = Some ''d1'' \<rparr>)) (Some [''_id'']) = Inr (Some (''d1'', ''alice''))
 \<and> mutations_update (coll_mutations demo_env_create_only ''posts-collection'') = None
 \<and> mutations_create (coll_mutations demo_env_create_only ''posts-collection'') =
      Some \<lparr> description = ''create'', check = None, mutation = marking_handler ''create handler'' \<rparr>
 \<and> upsert_mutation demo_env_create_only ''Posts'' None () (demo_args ''d1'' (''d1'', ''alice''))
      (demo_context (Some ''alice'')) demo_world =
     (demo_world\<lparr>trace := [ConnectorsGet (Some ''posts-collection'')
                               (BySelector (Some \<lparr> documentId = Some ''d1'' \<rparr>)) (Some [''_id''])]\<rparr>,
      Inl TypeError)
 \<and> mutations_update (coll_mutations demo_env_create_upsert ''posts-collection'') = None
 \<and> invoke (the (mutations_upsert (coll_mutations demo_env_create_upsert ''posts-collection'')))
      () (demo_args ''d1'' (''d1'', ''alice'')) (demo_context (Some ''alice'')) demo_world =
     (demo_world\<lparr>trace := [ConnectorsGet (Some ''posts-collection'')
                               (BySelector (Some \<lparr> documentId = Some ''d1'' \<rparr>)) (Some [''_id''])]\<rparr>,
      Inl TypeError)"
  by (simp add: demo_env_create_only_def demo_env_create_upsert_def demo_create_upsert_options_def
        demo_env0_def demo_world_def demo_key_id_def demo_args_def demo_context_def
        gdm_create gdm_update gdm_upsert options_or_default_def truthy_def
        invoke_def upsert_mutation_def call_get_def log_def Let_def)

text \<open>
  Two remarks on the upsert handler. A collection with neither descriptor gives the
  \<open>TypeError\<close> whatever the lookup returns. And the handlers generated here read
  \<open>input\<close> from their argument, which the upsert does not provide: with the generated
  create and update handlers on the collection, an upsert ends in a \<open>TypeError\<close> after
  the lookup, before any permission check.
\<close>

lemma upsert_missing_handler:
  assumes "input args = Some inp" and "collections ctx T = Some c"
    and "connectors_get E (store w) (Some c) (BySelector (selector inp)) (Some [''_id'']) = Inr found"
    and "mutations_update (coll_mutations E c) = None"
    and "mutations_create (coll_mutations E c) = None"
  shows "upsert_mutation E T this_check () args ctx w =
           (w\<lparr>trace := trace w @ [ConnectorsGet (Some c) (BySelector (selector inp)) (Some [''_id''])]\<rparr>,
            Inl TypeError)"
  using assms by (simp add: upsert_mutation_run)

lemma upsert_default_handlers_TypeError:
  assumes "input args = Some inp" and "collections ctx T = Some c"
    and "connectors_get E (store w) (Some c) (BySelector (selector inp)) (Some [''_id'']) = Inr found"
    and "coll_mutations E c = snd (getDefaultMutations reg' E' T' None r')"
  shows "upsert_mutation E T this_check () args ctx w =
           (w\<lparr>trace := trace w @ [ConnectorsGet (Some c) (BySelector (selector inp)) (Some [''_id''])]\<rparr>,
            Inl TypeError)"
  using assms
  by (simp add: upsert_mutation_run gdm_create gdm_update options_or_default_def truthy_def
        default_options_def invoke_def create_mutation_def update_mutation_def)

lemma upsert_default_handlers_example:
  "upsert_mutation demo_env ''Posts'' None () (demo_args ''d1'' (''d1'', ''alice''))
      (demo_context (Some ''alice'')) demo_world =
     (demo_world\<lparr>trace := [ConnectorsGet (Some ''posts-collection'')
                               (BySelector (Some \<lparr> documentId = Some ''d1'' \<rparr>)) (Some [''_id''])]\<rparr>,
      Inl TypeError)"
  using upsert_default_handlers_TypeError
          [where E = demo_env and T = "''Posts''" and args = "demo_args ''d1'' (''d1'', ''alice'')"
             and inp = "\<lparr> selector = Some \<lparr> documentId = Some ''d1'' \<rparr>, data = Some (''d1'', ''alice'') \<rparr>"
             and ctx = "demo_context (Some ''alice'')" and w = demo_world and c = "''posts-collection''"
             and found = "Some (''d1'', ''alice'')" and this_check = None
             and reg' = "\<lambda>d calls. calls @ [d]" and E' = demo_env0 and T' = "''Posts''" and r' = "[]"]
  by (simp add: demo_env_def demo_env0_def demo_mutations_def demo_args_def demo_context_def
        demo_world_def demo_key_id_def)

section \<open>Further facts\<close>

text \<open>
  \<open>getDefaultMutations\<close> registers the callbacks of the type, whatever the options, before
  it builds the descriptors.
\<close>

lemma getDefaultMutations_registers:
  "fst (getDefaultMutations reg E T oa r) = fold reg (registered T) r"
  by (simp add: gdm_registry registered_fold)

text \<open>
  A permitted request goes through to the mutator: in the example installation \<open>alice\<close>
  updates her own document, and the storage holds the new document afterwards.
\<close>

lemma update_permitted_example:
  "invoke (the (mutations_update demo_mutations)) () (demo_args ''d1'' (''d1'', ''zoe''))
      (demo_context (Some ''alice'')) demo_world =
     (\<lparr> store = [(''d1'', (''d1'', ''zoe''))],
        trace = [ConnectorsGet (Some ''posts-collection'') (ById (Some ''d1'')) None,
                 PerformCheck (Some ''alice'') (Some (''d1'', ''alice'')) None,
                 UpdateMutator (Some ''posts-collection'') (Some ''d1'') (Some (''d1'', ''zoe''))
                   (Some ''alice'') True (demo_context (Some ''alice''))] \<rparr>,
      Inr (''d1'', ''zoe''))"
  by (simp add: demo_simps invoke_def update_mutation_def call_get_def performCheck_def log_def
        update_check_def call_updateMutator_def demo_env0_def demo_args_def demo_context_def
        demo_world_def demo_key_id_def Let_def)

lemma create_permitted_example:
  "invoke (the (mutations_create demo_mutations)) () (demo_args ''d2'' (''d2'', ''bob''))
      (demo_context (Some ''bob'')) demo_world =
     (\<lparr> store = [(''d1'', (''d1'', ''alice'')), (''d2'', (''d2'', ''bob''))],
        trace = [PerformCheck (Some ''bob'') (Some (''d2'', ''bob'')) None,
                 CreateMutator (Some ''posts-collection'') (Some (''d2'', ''bob''))
                   (Some ''bob'') True (demo_context (Some ''bob''))] \<rparr>,
      Inr (''d2'', ''bob''))"
  by (simp add: demo_simps invoke_def create_mutation_def performCheck_def log_def
        create_check_def call_createMutator_def demo_env0_def demo_args_def demo_context_def
        demo_world_def Let_def)

end
